theory Spec2Isabelle
  imports Complex_Main "HOL-Library.Stream"
begin

section \<open>Data model of coordinates.py\<close>

text \<open>
  The enumeration \<open>Orientation\<close> (lines 89-93), the class \<open>Rectangle\<close> (lines 96-104)
  and its subclass \<open>Postcard\<close> (lines 198-229). Python integers are unbounded, so every
  coordinate is an \<open>int\<close>. The subclass is a record extension: every function on a
  rectangle also accepts a postcard, as the methods inherited in the source do. The
  logger kept in each object only prints, and is left out.
\<close>

datatype Orientation = UNDEFINED | LANDSCAPE | PORTRAIT

record Rectangle =
  xxx :: int
  zzz :: int
  width :: int
  height :: int

record Postcard = Rectangle +
  orientation :: Orientation

datatype error =
  ValueError | KeyError | IndexError | FileNotFoundError | OverflowError | ZeroDivisionError

section \<open>Rectangle geometry\<close>

text \<open>\<open>Rectangle.overlap\<close>, lines 116-139, with the names of its local variables.\<close>

definition overlap :: "'a Rectangle_scheme \<Rightarrow> 'b Rectangle_scheme \<Rightarrow> bool" where
  "overlap self other =
     (let x_11 = (xxx self > xxx other);
          x_12 = (xxx self < xxx other + width other);
          x_21 = (xxx self + width self > xxx other);
          x_22 = (xxx self + width self < xxx other + width other);
          x_test = ((x_11 \<and> x_12) \<or> (x_21 \<and> x_22));
          z_11 = (zzz self > zzz other);
          z_12 = (zzz self < zzz other + height other);
          z_21 = (zzz self + height self > zzz other);
          z_22 = (zzz self + height self < zzz other + height other);
          z_test = ((z_11 \<and> z_12) \<or> (z_21 \<and> z_22))
      in x_test \<and> z_test)"

text \<open>\<open>Rectangle.overflow\<close>, lines 141-150.\<close>

definition overflow :: "'a Rectangle_scheme \<Rightarrow> 'b Rectangle_scheme \<Rightarrow> bool" where
  "overflow self other =
     (let x_test = (xxx self < xxx other \<or> xxx self + width self > xxx other + width other);
          z_test = (zzz self < zzz other \<or> zzz self + height self > zzz other + height other)
      in x_test \<or> z_test)"

text \<open>\<open>Rectangle.get_cartesian\<close>, lines 152-154.\<close>

definition get_cartesian :: "'a Rectangle_scheme \<Rightarrow> int \<times> int" where
  "get_cartesian self = (xxx self, zzz self)"

text \<open>
  \<open>Rectangle.get_polar\<close>, lines 156-161. \<open>math.sqrt\<close>, \<open>math.atan\<close> and the true
  division of two integers return floating-point numbers. Their values are parameters of
  the model, over any type \<open>'f\<close> of floating-point numbers: \<open>sqrt_f n\<close> is
  \<open>math.sqrt(n)\<close> for an integer \<open>n\<close>, \<open>truediv a b\<close> is \<open>a / b\<close>, and
  \<open>atan_f\<close> is \<open>math.atan\<close>. What the model fixes is when and in which order they
  raise. The squares and their sum are exact integers. \<open>math.sqrt\<close> converts the sum to
  a double and raises \<open>OverflowError\<close> when it does not fit: the conversion rounds to
  nearest, so it fails from halfway between the largest double \<open>2^1024 - 2^971\<close> and
  \<open>2^1024\<close> on. The elements of the tuple are evaluated from left to right, so the
  division comes after the square root: it raises \<open>ZeroDivisionError\<close> for a zero
  divisor and \<open>OverflowError\<close> when the rounded quotient does not fit.
\<close>

definition float_limit :: int where
  "float_limit = 2 ^ 1024 - 2 ^ 970"

definition float_overflow :: "int \<Rightarrow> bool" where
  "float_overflow n = (\<bar>n\<bar> \<ge> float_limit)"





text \<open>The module constant \<open>THE_DOOR\<close>, line 195.\<close>

definition THE_DOOR :: Rectangle where
  "THE_DOOR = \<lparr>xxx = 0, zzz = 0, width = 800, height = 2000\<rparr>"

section \<open>Random draws\<close>

text \<open>
  The module seeds Python's generator once (line 14) and draws from it with \<open>randint\<close>.
  The generator's state is the stream of raw values it has yet to hand out; each draw
  takes the head. \<open>random.randint(a, b)\<close> returns an integer \<open>N\<close> with
  \<open>a \<le> N \<le> b\<close> and raises \<open>ValueError\<close> on an empty range (it is
  \<open>randrange(a, b + 1)\<close>); reducing the raw value into the range keeps exactly that
  contract, and every value of the range is the result for some raw value.
\<close>

type_synonym rng = "nat stream"

definition randint :: "int \<Rightarrow> int \<Rightarrow> rng \<Rightarrow> error + (int \<times> rng)" where
  "randint a b g =
     (if b < a then Inl ValueError
      else Inr (a + int (shd g) mod (b - a + 1), stl g))"

section \<open>Postcards\<close>

text \<open>The class constants \<open>Postcard.WIDTH\<close> and \<open>Postcard.HEIGHT\<close>, lines 202-203.\<close>

definition WIDTH :: int where
  "WIDTH = 146"

definition HEIGHT :: int where
  "HEIGHT = 106"

text \<open>
  \<open>Postcard.__init__\<close>, lines 205-229. The three arguments default to \<open>None\<close>, so each
  is an option. The constructor reads the module global \<open>THE_DOOR\<close> when it draws; the
  global is the parameter \<open>door\<close> of the model, and the program runs with
  \<open>door = THE_DOOR\<close>. The result carries the generator's state after the call.
\<close>

definition Postcard_init ::
  "Rectangle \<Rightarrow> int option \<Rightarrow> int option \<Rightarrow> Orientation option \<Rightarrow> rng
     \<Rightarrow> error + (Postcard \<times> rng)" where
  "Postcard_init door xxx0 zzz0 orientation0 g =
     (let (w, h) = (case orientation0 of
                      Some LANDSCAPE \<Rightarrow> (WIDTH, HEIGHT)
                    | Some PORTRAIT \<Rightarrow> (HEIGHT, WIDTH)
                    | _ \<Rightarrow> (WIDTH, WIDTH));
          orientation1 = (case orientation0 of None \<Rightarrow> UNDEFINED | Some v \<Rightarrow> v)
      in if xxx0 = None \<or> zzz0 = None then
           if xxx0 \<noteq> None \<or> zzz0 \<noteq> None then Inl ValueError
           else
             (case randint 0 (width door - w) g of
                Inl e \<Rightarrow> Inl e
              | Inr (x, g1) \<Rightarrow>
                  (case randint 0 (height door - h) g1 of
                     Inl e \<Rightarrow> Inl e
                   | Inr (z, g2) \<Rightarrow>
                       Inr (\<lparr>xxx = x, zzz = z, width = w, height = h,
                             orientation = orientation1\<rparr>, g2)))
         else
           Inr (\<lparr>xxx = the xxx0, zzz = the zzz0, width = w, height = h,
                 orientation = orientation1\<rparr>, g))"

section \<open>Acceptance test and placement loop\<close>

text \<open>
  \<open>test_new\<close>, lines 269-280: the \<open>for\<close> loop with its early return is the recursion
  \<open>test_new_loop\<close>. The door is a parameter as in \<open>Postcard_init\<close>.
\<close>

fun test_new_loop :: "Postcard \<Rightarrow> Postcard list \<Rightarrow> bool" where
  "test_new_loop new_postcard [] = True"
| "test_new_loop new_postcard (postcard # postcards) =
     (if overlap new_postcard postcard then False
      else test_new_loop new_postcard postcards)"

definition test_new :: "Rectangle \<Rightarrow> Postcard \<Rightarrow> Postcard list \<Rightarrow> bool" where
  "test_new door new_postcard postcards =
     (if overflow new_postcard door then False
      else test_new_loop new_postcard postcards)"

text \<open>
  The \<open>while\<close> loop of \<open>main\<close>, lines 339-340. It has no bound on its retries, so the
  model is a partial function: \<open>None\<close> is the run that never leaves the loop.
\<close>

partial_function (option) main_retry ::
  "Rectangle \<Rightarrow> Orientation \<Rightarrow> Postcard list \<Rightarrow> Postcard \<Rightarrow> rng
     \<Rightarrow> (error + (Postcard \<times> rng)) option" where
  "main_retry door orientation1 existing_postcards postcard g =
     (if \<not> test_new door postcard existing_postcards then
        (case Postcard_init door None None (Some orientation1) g of
           Inl e \<Rightarrow> Some (Inl e)
         | Inr (postcard', g') \<Rightarrow>
             main_retry door orientation1 existing_postcards postcard' g')
      else Some (Inr (postcard, g)))"

text \<open>
  Lines 338-342 of \<open>main\<close>: the first candidate, the loop, and the append to the list of
  placed postcards. The result is the extended list, the accepted postcard and the
  generator's state.
\<close>

definition main_placement ::
  "Rectangle \<Rightarrow> Orientation \<Rightarrow> Postcard list \<Rightarrow> rng
     \<Rightarrow> (error + (Postcard list \<times> Postcard \<times> rng)) option" where
  "main_placement door orientation1 existing_postcards g =
     (case Postcard_init door None None (Some orientation1) g of
        Inl e \<Rightarrow> Some (Inl e)
      | Inr (postcard, g1) \<Rightarrow>
          (case main_retry door orientation1 existing_postcards postcard g1 of
             None \<Rightarrow> None
           | Some (Inl e) \<Rightarrow> Some (Inl e)
           | Some (Inr (postcard', g2)) \<Rightarrow>
               Some (Inr (existing_postcards @ [postcard'], postcard', g2))))"

section \<open>Verbosity\<close>

text \<open>
  Subscription of a Python list by an integer: an index below zero counts from the end,
  and an index outside the list raises \<open>IndexError\<close>.
\<close>

definition list_getitem :: "'a list \<Rightarrow> int \<Rightarrow> error + 'a" where
  "list_getitem xs i =
     (if 0 \<le> i \<and> i < int (length xs) then Inr (xs ! nat i)
      else if - int (length xs) \<le> i \<and> i < 0 then Inr (xs ! nat (int (length xs) + i))
      else Inl IndexError)"

text \<open>
  Lines 328-334 of \<open>main\<close>. The levels are the numbers of the \<open>logging\<close> module
  (\<open>ERROR = 40\<close>, \<open>WARNING = 30\<close>, \<open>INFO = 20\<close>, \<open>DEBUG = 10\<close>); the argument is
  \<open>args.verbose\<close>, the count of \<open>-v\<close> flags. The result is the level handed to
  \<open>logging.basicConfig\<close>.
\<close>

definition log_levels :: "int list" where
  "log_levels = [40, 30, 20, 10]"

definition main_log_level :: "int option \<Rightarrow> error + int" where
  "main_log_level verbose =
     (let verbose1 = (case verbose of
                        None \<Rightarrow> 0
                      | Some v \<Rightarrow>
                          if v \<ge> int (length log_levels) then int (length log_levels)
                          else v)
      in list_getitem log_levels verbose1)"

section \<open>Strings of the record store\<close>

text \<open>
  The file of placed postcards is text. A string is a list of characters, each a code
  point below 256; everything the program writes is ASCII. The functions of this section
  are those of Python's \<open>str\<close> and \<open>int\<close> that the record store calls.
\<close>

text \<open>
  \<open>str(n)\<close> for an integer, which is what the f-string of \<open>as_string\<close> formats:
  decimal digits, most significant first, with a minus sign for a negative number.
\<close>

definition digit_char :: "nat \<Rightarrow> char" where
  "digit_char d = ''0123456789'' ! d"

fun str_nat :: "nat \<Rightarrow> string" where
  "str_nat n = (if n < 10 then [digit_char n] else str_nat (n div 10) @ [digit_char (n mod 10)])"

declare str_nat.simps [simp del]

definition str_int :: "int \<Rightarrow> string" where
  "str_int i = (if i < 0 then CHR ''-'' # str_nat (nat (- i)) else str_nat (nat i))"

text \<open>
  \<open>int(s)\<close> for a string: white space is skipped at both ends, one sign may come first,
  and the rest is a non-empty run of decimal digits in which single underscores may
  stand between digits. Anything else raises \<open>ValueError\<close>. The white space that
  \<open>int\<close> skips is tab, line feed, vertical tab, form feed, carriage return and space,
  and of the code points from 128 to 255 the two Unicode spaces 0x85 and 0xA0; the
  separators 0x1C to 0x1F, which \<open>str.strip\<close> would remove, are not skipped. The
  interpreter's configurable limit on the number of digits of such a conversion is left
  out.
\<close>

definition digit_value :: "char \<Rightarrow> nat option" where
  "digit_value c =
     map_of [(CHR ''0'', 0), (CHR ''1'', 1), (CHR ''2'', 2), (CHR ''3'', 3), (CHR ''4'', 4),
             (CHR ''5'', 5), (CHR ''6'', 6), (CHR ''7'', 7), (CHR ''8'', 8), (CHR ''9'', 9)] c"

definition int_space :: "char \<Rightarrow> bool" where
  "int_space c = (c \<in> set [CHR 0x09, CHR 0x0A, CHR 0x0B, CHR 0x0C, CHR 0x0D, CHR 0x20,
                            CHR 0x85, CHR 0xA0])"

definition int_strip :: "string \<Rightarrow> string" where
  "int_strip s = rev (dropWhile int_space (rev (dropWhile int_space s)))"

fun digits_value :: "nat \<Rightarrow> string \<Rightarrow> nat option" where
  "digits_value acc [] = Some acc"
| "digits_value acc (c # cs) =
     (case digit_value c of
        Some d \<Rightarrow> digits_value (10 * acc + d) cs
      | None \<Rightarrow>
          (if c = CHR ''_'' then
             (case cs of
                [] \<Rightarrow> None
              | c' # _ \<Rightarrow> (if digit_value c' = None then None else digits_value acc cs))
           else None))"

definition int_py :: "string \<Rightarrow> error + int" where
  "int_py s =
     (let t = int_strip s;
          (sign, body) = (case t of
                            [] \<Rightarrow> (1, t)
                          | c # cs \<Rightarrow>
                              if c = CHR ''-'' then (- 1, cs)
                              else if c = CHR ''+'' then (1, cs)
                              else (1, t))
      in case body of
           [] \<Rightarrow> Inl ValueError
         | c # _ \<Rightarrow>
             (if digit_value c = None then Inl ValueError
              else (case digits_value 0 body of
                      None \<Rightarrow> Inl ValueError
                    | Some n \<Rightarrow> Inr (sign * int n))))"

text \<open>
  \<open>s.split(sep)\<close> with a separator of one character: every occurrence splits, so the
  result has one more element than there are separators, and the empty string gives the
  list of one empty string.
\<close>

fun split_sep :: "char \<Rightarrow> string \<Rightarrow> string list" where
  "split_sep sep [] = [[]]"
| "split_sep sep (c # cs) =
     (if c = sep then [] # split_sep sep cs
      else (case split_sep sep cs of
              [] \<Rightarrow> [[c]]
            | w # ws \<Rightarrow> (c # w) # ws))"

text \<open>\<open>sep.join(xs)\<close>.\<close>

fun join :: "string \<Rightarrow> string list \<Rightarrow> string" where
  "join sep [] = []"
| "join sep [x] = x"
| "join sep (x # y # ys) = x @ sep @ join sep (y # ys)"

text \<open>
  \<open>s.splitlines()\<close>: a line ends at a line feed, a carriage return (with the line feed
  that follows it, if any), or one of the other boundaries below 256; the boundary is
  dropped, and there is no empty last line after a final boundary.
\<close>

definition linebreak :: "char \<Rightarrow> bool" where
  "linebreak c = (c \<in> set [CHR 0x0A, CHR 0x0B, CHR 0x0C, CHR 0x0D, CHR 0x1C, CHR 0x1D,
                            CHR 0x1E, CHR 0x85])"

fun splitlines :: "string \<Rightarrow> string list" where
  "splitlines [] = []"
| "splitlines (c # cs) =
     (if c = CHR 0x0D then
        (case cs of
           [] \<Rightarrow> [[]]
         | d # ds \<Rightarrow> if d = CHR 0x0A then [] # splitlines ds else [] # splitlines cs)
      else if linebreak c then [] # splitlines cs
      else (case splitlines cs of
              [] \<Rightarrow> [[c]]
            | l # ls \<Rightarrow> (c # l) # ls))"

text \<open>\<open>s.startswith(prefix)\<close>.\<close>

definition startswith :: "string \<Rightarrow> string \<Rightarrow> bool" where
  "startswith s prefix = (take (length prefix) s = prefix)"

section \<open>Record store\<close>

text \<open>
  The member names of the enumeration (\<open>orientation.name\<close>, line 233) and the lookup of a
  member by its name (\<open>Orientation[orientation_str]\<close>, line 241), which raises
  \<open>KeyError\<close> for any other string.
\<close>

fun Orientation_name :: "Orientation \<Rightarrow> string" where
  "Orientation_name UNDEFINED = ''UNDEFINED''"
| "Orientation_name LANDSCAPE = ''LANDSCAPE''"
| "Orientation_name PORTRAIT = ''PORTRAIT''"

definition Orientation_getitem :: "string \<Rightarrow> error + Orientation" where
  "Orientation_getitem s =
     (if s = ''UNDEFINED'' then Inr UNDEFINED
      else if s = ''LANDSCAPE'' then Inr LANDSCAPE
      else if s = ''PORTRAIT'' then Inr PORTRAIT
      else Inl KeyError)"

text \<open>\<open>Postcard.as_string\<close>, lines 231-233.\<close>

definition as_string :: "Postcard \<Rightarrow> string" where
  "as_string self =
     str_int (xxx self) @ '','' @ str_int (zzz self) @ '','' @ Orientation_name (orientation self)"

text \<open>
  \<open>Postcard.from_string\<close>, lines 235-241. Unpacking the split into three names raises
  \<open>ValueError\<close> unless there are exactly three fields; the arguments of the constructor
  are evaluated from left to right.
\<close>

definition from_string :: "string \<Rightarrow> rng \<Rightarrow> error + (Postcard \<times> rng)" where
  "from_string args g =
     (case split_sep CHR '','' args of
        [xxx_str, zzz_str, orientation_str] \<Rightarrow>
          (case int_py xxx_str of
             Inl e \<Rightarrow> Inl e
           | Inr x \<Rightarrow>
               (case int_py zzz_str of
                  Inl e \<Rightarrow> Inl e
                | Inr z \<Rightarrow>
                    (case Orientation_getitem orientation_str of
                       Inl e \<Rightarrow> Inl e
                     | Inr v \<Rightarrow> Postcard_init THE_DOOR (Some x) (Some z) (Some v) g)))
      | _ \<Rightarrow> Inl ValueError)"

text \<open>
  \<open>parse_busy\<close>, lines 244-257. The file \<open>BUSY_FILE\<close> is the state the function reads:
  \<open>None\<close> when it does not exist, otherwise its text.
\<close>

fun parse_busy_loop :: "string list \<Rightarrow> Postcard list \<Rightarrow> rng \<Rightarrow> error + (Postcard list \<times> rng)" where
  "parse_busy_loop [] postcards g = Inr (postcards, g)"
| "parse_busy_loop (line # contents) postcards g =
     (if startswith line ''#'' then parse_busy_loop contents postcards g
      else (case from_string line g of
              Inl e \<Rightarrow> Inl e
            | Inr (postcard, g') \<Rightarrow> parse_busy_loop contents (postcards @ [postcard]) g'))"

definition parse_busy :: "string option \<Rightarrow> rng \<Rightarrow> error + (Postcard list \<times> rng)" where
  "parse_busy busy_file g =
     (case busy_file of
        None \<Rightarrow> Inl FileNotFoundError
      | Some text \<Rightarrow> parse_busy_loop (splitlines text) [] g)"

text \<open>\<open>write_busy\<close>, lines 260-266; the result is the file after the write.\<close>

definition write_busy :: "Postcard list \<Rightarrow> string option" where
  "write_busy postcards =
     (let contents = ''# x,z,orientation'' @ [CHR 0x0A];
          contents = contents @ join [CHR 0x0A] (map as_string postcards) @ [CHR 0x0A]
      in Some contents)"

section \<open>Auxiliary notions of the proofs\<close>

definition is_digit :: "char \<Rightarrow> bool" where
  "is_digit c = (c \<in> set ''0123456789'')"

definition digits_fold :: "nat \<Rightarrow> string \<Rightarrow> nat" where
  "digits_fold acc cs = foldl (\<lambda>a c. 10 * a + the (digit_value c)) acc cs"

section \<open>The invariant of the placed postcards\<close>

text \<open>
  The invariant of the specification, in its words: no two members of the list overlap,
  and no member overflows the door. "No two members" ranges over every ordered pair of
  distinct positions.
\<close>

definition no_two_overlap :: "Postcard list \<Rightarrow> bool" where
  "no_two_overlap ps =
     (\<forall>i \<in> {..<length ps}. \<forall>j \<in> {..<length ps}. i \<noteq> j \<longrightarrow> \<not> overlap (ps ! i) (ps ! j))"

definition placed_invariant :: "Rectangle \<Rightarrow> Postcard list \<Rightarrow> bool" where
  "placed_invariant door ps = (no_two_overlap ps \<and> (\<forall>p \<in> set ps. \<not> overflow p door))"

text \<open>The size the specification assigns to an orientation (section 3).\<close>

fun requested_size :: "Orientation \<Rightarrow> int \<times> int" where
  "requested_size LANDSCAPE = (146, 106)"
| "requested_size PORTRAIT = (106, 146)"
| "requested_size UNDEFINED = (146, 146)"

section \<open>Properties of the overlap test\<close>

lemma overlap_self: "overlap A A = False"
  by (simp add: overlap_def)

text \<open>
  Claim C1 (symmetry of \<open>overlap\<close>). The code is not symmetric: a rectangle that strictly
  contains another one has none of its own edges inside the other, so the test only
  fires in one direction. Here A = (0,0,10,10) contains B = (2,2,3,3).
\<close>

theorem overlap_not_symmetric:
  "overlap \<lparr>xxx = 0, zzz = 0, width = 10, height = 10\<rparr>
           \<lparr>xxx = 2, zzz = 2, width = 3, height = 3\<rparr> = False
   \<and> overlap \<lparr>xxx = 2, zzz = 2, width = 3, height = 3\<rparr>
             \<lparr>xxx = 0, zzz = 0, width = 10, height = 10\<rparr> = True"
  by (simp add: overlap_def)

text \<open>
  Claim C2 (a rectangle of positive width and height overlaps itself). On the code the
  test of a rectangle against itself is false: no edge lies strictly inside the
  rectangle's own span. Evaluated at A = (0,0,10,10).
\<close>

theorem overlap_self_positive_size_false:
  "overlap \<lparr>xxx = 0, zzz = 0, width = 10, height = 10\<rparr>
           \<lparr>xxx = 0, zzz = 0, width = 10, height = 10\<rparr> = False"
  by (simp add: overlap_def)

text \<open>
  Claim C5 (rectangles that share only a boundary edge do not overlap). For rectangles of
  non-negative width and height whose spans meet in a single coordinate on one axis,
  the test is false in both directions; the specification's example is the witness.
\<close>

theorem overlap_edge_adjacent_false:
  assumes "0 \<le> width A" and "0 \<le> height A" and "0 \<le> width B" and "0 \<le> height B"
    and "xxx A + width A = xxx B \<or> xxx B + width B = xxx A
         \<or> zzz A + height A = zzz B \<or> zzz B + height B = zzz A"
  shows "overlap A B = False \<and> overlap B A = False"
  using assms by (auto simp: overlap_def)

theorem overlap_edge_adjacent_false_witness:
  "overlap \<lparr>xxx = 0, zzz = 0, width = 10, height = 10\<rparr>
           \<lparr>xxx = 10, zzz = 0, width = 10, height = 10\<rparr> = False
   \<and> overlap \<lparr>xxx = 10, zzz = 0, width = 10, height = 10\<rparr>
             \<lparr>xxx = 0, zzz = 0, width = 10, height = 10\<rparr> = False"
  using overlap_edge_adjacent_false
          [of "\<lparr>xxx = 0, zzz = 0, width = 10, height = 10\<rparr>"
              "\<lparr>xxx = 10, zzz = 0, width = 10, height = 10\<rparr>"]
  by simp

section \<open>Properties of the draw and of the constructor\<close>

lemma randint_range:
  assumes "a \<le> b"
  shows "\<exists>n. randint a b g = Inr (n, stl g) \<and> a \<le> n \<and> n \<le> b"
proof -
  have pos: "0 < b - a + 1" using assms by simp
  have "0 \<le> int (shd g) mod (b - a + 1)" and "int (shd g) mod (b - a + 1) < b - a + 1"
    using pos by (rule pos_mod_sign, rule pos_mod_bound)
  then show ?thesis using assms by (simp add: randint_def)
qed

lemma randint_empty: "b < a \<Longrightarrow> randint a b g = Inl ValueError"
  by (simp add: randint_def)

lemma Postcard_init_landscape:
  "\<exists>p. Postcard_init THE_DOOR None None (Some LANDSCAPE) g = Inr (p, stl (stl g))
       \<and> 0 \<le> xxx p \<and> xxx p \<le> 654 \<and> 0 \<le> zzz p \<and> zzz p \<le> 1894
       \<and> width p = 146 \<and> height p = 106 \<and> orientation p = LANDSCAPE"
proof -
  obtain x where x: "randint 0 654 g = Inr (x, stl g)" "0 \<le> x" "x \<le> 654"
    using randint_range [of 0 654 g] by auto
  obtain z where z: "randint 0 1894 (stl g) = Inr (z, stl (stl g))" "0 \<le> z" "z \<le> 1894"
    using randint_range [of 0 1894 "stl g"] by auto
  show ?thesis using x z
    by (simp add: Postcard_init_def THE_DOOR_def WIDTH_def HEIGHT_def)
qed

lemma Postcard_init_door_draws:
  "\<exists>p. Postcard_init THE_DOOR None None orientation0 g = Inr (p, stl (stl g))
       \<and> overflow p THE_DOOR = False"
proof -
  obtain w h where wh: "(case orientation0 of
                      Some LANDSCAPE \<Rightarrow> (WIDTH, HEIGHT)
                    | Some PORTRAIT \<Rightarrow> (HEIGHT, WIDTH)
                    | _ \<Rightarrow> (WIDTH, WIDTH)) = (w, h)" by fastforce
  then have le: "w \<le> 146" "h \<le> 146" "0 \<le> w" "0 \<le> h"
    by (auto simp: WIDTH_def HEIGHT_def split: option.splits Orientation.splits)
  obtain x where x: "randint 0 (800 - w) g = Inr (x, stl g)" "0 \<le> x" "x \<le> 800 - w"
    using randint_range [of 0 "800 - w" g] le by auto
  obtain z where z: "randint 0 (2000 - h) (stl g) = Inr (z, stl (stl g))" "0 \<le> z" "z \<le> 2000 - h"
    using randint_range [of 0 "2000 - h" "stl g"] le by auto
  show ?thesis using x z wh
    by (simp add: Postcard_init_def THE_DOOR_def overflow_def)
qed

lemma Postcard_init_too_small:
  assumes "width door < fst (requested_size orientation1)
           \<or> height door < snd (requested_size orientation1)"
  shows "Postcard_init door None None (Some orientation1) g = Inl ValueError"
proof (cases "width door < fst (requested_size orientation1)")
  case True
  then have "randint 0 (width door - fst (requested_size orientation1)) g = Inl ValueError"
    by (simp add: randint_empty)
  then show ?thesis
    by (cases orientation1) (simp_all add: Postcard_init_def WIDTH_def HEIGHT_def)
next
  case False
  then obtain x where
    x: "randint 0 (width door - fst (requested_size orientation1)) g = Inr (x, stl g)"
    using randint_range [of 0 "width door - fst (requested_size orientation1)" g] by auto
  from False assms have "height door < snd (requested_size orientation1)" by simp
  then have "randint 0 (height door - snd (requested_size orientation1)) (stl g) = Inl ValueError"
    by (simp add: randint_empty)
  with x show ?thesis
    by (cases orientation1) (simp_all add: Postcard_init_def WIDTH_def HEIGHT_def)
qed

text \<open>
  Claim C10 (half a pair of coordinates is refused). With exactly one coordinate the
  constructor raises \<open>ValueError\<close>; with both it uses them as they are and leaves the
  generator untouched; with none, on the door of the program, it takes two draws, the
  first for \<open>xxx\<close> and the second for \<open>zzz\<close>.
\<close>

theorem Postcard_init_coordinates:
  "Postcard_init door (Some x) None orientation0 g = Inl ValueError
   \<and> Postcard_init door None (Some z) orientation0 g = Inl ValueError
   \<and> (\<exists>p. Postcard_init door (Some x) (Some z) orientation0 g = Inr (p, g)
          \<and> xxx p = x \<and> zzz p = z)
   \<and> (\<exists>p. Postcard_init THE_DOOR None None orientation0 g = Inr (p, stl (stl g))
          \<and> xxx p = int (shd g) mod (800 - width p + 1)
          \<and> zzz p = int (shd (stl g)) mod (2000 - height p + 1))"
proof -
  have a: "Postcard_init door (Some x) None orientation0 g = Inl ValueError"
    by (simp add: Postcard_init_def split: prod.splits)
  have b: "Postcard_init door None (Some z) orientation0 g = Inl ValueError"
    by (simp add: Postcard_init_def split: prod.splits)
  have c: "\<exists>p. Postcard_init door (Some x) (Some z) orientation0 g = Inr (p, g)
          \<and> xxx p = x \<and> zzz p = z"
    by (simp add: Postcard_init_def split: prod.splits)
  obtain w h where wh: "(case orientation0 of
                      Some LANDSCAPE \<Rightarrow> (WIDTH, HEIGHT)
                    | Some PORTRAIT \<Rightarrow> (HEIGHT, WIDTH)
                    | _ \<Rightarrow> (WIDTH, WIDTH)) = (w, h)" by fastforce
  then have le: "w \<le> 146" "h \<le> 146"
    by (auto simp: WIDTH_def HEIGHT_def split: option.splits Orientation.splits)
  have d: "\<exists>p. Postcard_init THE_DOOR None None orientation0 g = Inr (p, stl (stl g))
          \<and> xxx p = int (shd g) mod (800 - width p + 1)
          \<and> zzz p = int (shd (stl g)) mod (2000 - height p + 1)"
    using wh le by (simp add: Postcard_init_def THE_DOOR_def randint_def)
  from a b c d show ?thesis by blast
qed

theorem Postcard_init_coordinates_witness:
  "Postcard_init THE_DOOR (Some 5) None (Some PORTRAIT) (sconst 0) = Inl ValueError
   \<and> Postcard_init THE_DOOR None (Some 7) (Some PORTRAIT) (sconst 0) = Inl ValueError
   \<and> (\<exists>p. Postcard_init THE_DOOR (Some 5) (Some 7) (Some PORTRAIT) (sconst 0)
            = Inr (p, sconst 0)
          \<and> xxx p = 5 \<and> zzz p = 7)
   \<and> (\<exists>p. Postcard_init THE_DOOR None None (Some PORTRAIT) (sconst 0) = Inr (p, sconst 0)
          \<and> xxx p = 0 \<and> zzz p = 0)"
  using Postcard_init_coordinates
          [of THE_DOOR 5 "Some PORTRAIT" "sconst 0" 7]
  by simp

section \<open>Properties of the acceptance test and of the placement\<close>

lemma test_new_loop_iff:
  "test_new_loop new ps \<longleftrightarrow> (\<forall>p \<in> set ps. \<not> overlap new p)"
  by (induction ps) auto

lemma test_new_iff:
  "test_new door new ps \<longleftrightarrow> \<not> overflow new door \<and> (\<forall>p \<in> set ps. \<not> overlap new p)"
  by (simp add: test_new_def test_new_loop_iff)

lemma test_new_append_directed:
  assumes "test_new door new ps"
    and "\<forall>p \<in> set ps. \<not> overflow p door"
  shows "\<forall>p \<in> set (ps @ [new]). \<not> overflow p door"
    and "\<forall>p \<in> set ps. \<not> overlap new p"
  using assms by (auto simp: test_new_iff)

lemma invariant_lost_example:
  "placed_invariant THE_DOOR
     [\<lparr>xxx = 10, zzz = 50, width = 106, height = 146, orientation = PORTRAIT\<rparr>]
   \<and> \<not> placed_invariant THE_DOOR
       [\<lparr>xxx = 10, zzz = 50, width = 106, height = 146, orientation = PORTRAIT\<rparr>,
        \<lparr>xxx = 0, zzz = 0, width = 146, height = 106, orientation = LANDSCAPE\<rparr>]"
proof -
  let ?old = "\<lparr>xxx = 10, zzz = 50, width = 106, height = 146, orientation = PORTRAIT\<rparr>"
  let ?new = "\<lparr>xxx = 0, zzz = 0, width = 146, height = 106, orientation = LANDSCAPE\<rparr>"
  have inv: "placed_invariant THE_DOOR [?old]"
    by (simp add: placed_invariant_def no_two_overlap_def overflow_def THE_DOOR_def)
  have ov: "overlap ?old ?new"
    by (simp add: overlap_def)
  have "\<not> no_two_overlap [?old, ?new]"
  proof
    assume "no_two_overlap [?old, ?new]"
    then have "\<not> overlap ([?old, ?new] ! 0) ([?old, ?new] ! 1)"
      unfolding no_two_overlap_def by (simp add: lessThan_Suc)
    with ov show False by simp
  qed
  then have "\<not> placed_invariant THE_DOOR [?old, ?new]"
    by (simp add: placed_invariant_def)
  with inv show ?thesis by blast
qed

text \<open>
  Claim C4 (landscape placement on the empty door). Whatever the generator hands out, the
  placement returns on its first candidate, and the accepted postcard has
  \<open>0 \<le> x \<le> 654\<close>, \<open>0 \<le> z \<le> 1894\<close>, the size 146 by 106, and does not overflow
  the door.
\<close>

theorem sampler_landscape_empty:
  "\<exists>p g'. main_placement THE_DOOR LANDSCAPE [] g = Some (Inr ([p], p, g'))
     \<and> 0 \<le> xxx p \<and> xxx p \<le> 654 \<and> 0 \<le> zzz p \<and> zzz p \<le> 1894
     \<and> width p = 146 \<and> height p = 106
     \<and> overflow p THE_DOOR = False"
proof -
  obtain p where p: "Postcard_init THE_DOOR None None (Some LANDSCAPE) g = Inr (p, stl (stl g))"
    and b: "0 \<le> xxx p" "xxx p \<le> 654" "0 \<le> zzz p" "zzz p \<le> 1894" "width p = 146" "height p = 106"
    using Postcard_init_landscape [of g] by blast
  have ov: "overflow p THE_DOOR = False"
    using b by (simp add: overflow_def THE_DOOR_def)
  then have "test_new THE_DOOR p []"
    by (simp add: test_new_def)
  then have "main_retry THE_DOOR LANDSCAPE [] p (stl (stl g)) = Some (Inr (p, stl (stl g)))"
    by (subst main_retry.simps) simp
  with p have "main_placement THE_DOOR LANDSCAPE [] g = Some (Inr ([p], p, stl (stl g)))"
    by (simp add: main_placement_def)
  with b ov show ?thesis by blast
qed

text \<open>
  Claim C6 (a door smaller than the postcard). When the door is narrower or lower than
  the requested size, the first construction of a candidate raises \<open>ValueError\<close> from the
  draw on an empty range, before the loop is entered: the placement ends with that error,
  it neither loops nor returns a postcard.
\<close>

theorem sampler_fails_fast:
  assumes "width door < fst (requested_size orientation1)
           \<or> height door < snd (requested_size orientation1)"
  shows "main_placement door orientation1 existing_postcards g = Some (Inl ValueError)"
  using Postcard_init_too_small [OF assms, of g] by (simp add: main_placement_def)

theorem sampler_fails_fast_witness:
  "width \<lparr>xxx = 0, zzz = 0, width = 100, height = 2000\<rparr> < fst (requested_size LANDSCAPE)
   \<and> main_placement \<lparr>xxx = 0, zzz = 0, width = 100, height = 2000\<rparr> LANDSCAPE [] (sconst 0)
       = Some (Inl ValueError)"
  using sampler_fails_fast [of "\<lparr>xxx = 0, zzz = 0, width = 100, height = 2000\<rparr>" LANDSCAPE "[]" "sconst 0"]
  by simp

text \<open>
  Claim C3 (appending an accepted candidate keeps the invariant). On the code the
  invariant is lost: with a portrait postcard at (10, 50) already placed, the landscape
  candidate at (0, 0) is accepted, because \<open>test_new\<close> only asks whether the candidate
  overlaps the placed postcard and the x-span of the candidate contains that of the placed
  one; asked the other way round, \<open>overlap\<close> is true, so two members of the new list
  overlap, while neither overflows the door (the invariant held of the list before and
  does not hold of the list after, \<open>invariant_lost_example\<close>).
\<close>

theorem placement_accepts_overlapping:
  "main_placement THE_DOOR LANDSCAPE
       [\<lparr>xxx = 10, zzz = 50, width = 106, height = 146, orientation = PORTRAIT\<rparr>] (sconst 0)
     = Some (Inr ([\<lparr>xxx = 10, zzz = 50, width = 106, height = 146, orientation = PORTRAIT\<rparr>,
                   \<lparr>xxx = 0, zzz = 0, width = 146, height = 106, orientation = LANDSCAPE\<rparr>],
                  \<lparr>xxx = 0, zzz = 0, width = 146, height = 106, orientation = LANDSCAPE\<rparr>,
                  sconst 0))
   \<and> overflow \<lparr>xxx = 10, zzz = 50, width = 106, height = 146, orientation = PORTRAIT\<rparr>
        THE_DOOR = False
   \<and> overflow \<lparr>xxx = 0, zzz = 0, width = 146, height = 106, orientation = LANDSCAPE\<rparr>
        THE_DOOR = False
   \<and> overlap \<lparr>xxx = 0, zzz = 0, width = 146, height = 106, orientation = LANDSCAPE\<rparr>
        \<lparr>xxx = 10, zzz = 50, width = 106, height = 146, orientation = PORTRAIT\<rparr> = False
   \<and> overlap \<lparr>xxx = 10, zzz = 50, width = 106, height = 146, orientation = PORTRAIT\<rparr>
        \<lparr>xxx = 0, zzz = 0, width = 146, height = 106, orientation = LANDSCAPE\<rparr> = True"
proof -
  let ?old = "\<lparr>xxx = 10, zzz = 50, width = 106, height = 146, orientation = PORTRAIT\<rparr>"
  let ?new = "\<lparr>xxx = 0, zzz = 0, width = 146, height = 106, orientation = LANDSCAPE\<rparr>"
  have init: "Postcard_init THE_DOOR None None (Some LANDSCAPE) (sconst 0) = Inr (?new, sconst 0)"
    by (simp add: Postcard_init_def THE_DOOR_def WIDTH_def HEIGHT_def randint_def)
  have acc: "test_new THE_DOOR ?new [?old]"
    by (simp add: test_new_def overflow_def overlap_def THE_DOOR_def)
  then have "main_retry THE_DOOR LANDSCAPE [?old] ?new (sconst 0) = Some (Inr (?new, sconst 0))"
    by (subst main_retry.simps) simp
  with init have run: "main_placement THE_DOOR LANDSCAPE [?old] (sconst 0)
      = Some (Inr ([?old, ?new], ?new, sconst 0))"
    by (simp add: main_placement_def)
  have fl: "overflow ?old THE_DOOR = False" "overflow ?new THE_DOOR = False"
    by (simp_all add: overflow_def THE_DOOR_def)
  have ov: "overlap ?new ?old = False" "overlap ?old ?new = True"
    by (simp_all add: overlap_def)
  from run fl ov show ?thesis by blast
qed

section \<open>Properties of the polar coordinates\<close>




lemma door_in_float_range:
  assumes "\<not> overflow self THE_DOOR" and "0 \<le> width self" and "0 \<le> height self"
  shows "\<not> float_overflow (xxx self ^ 2 + zzz self ^ 2)"
proof -
  from assms have x: "0 \<le> xxx self" "xxx self \<le> 800" and z: "0 \<le> zzz self" "zzz self \<le> 2000"
    by (simp_all add: overflow_def THE_DOOR_def)
  have "xxx self ^ 2 \<le> 800 ^ 2" using x by (intro power_mono) simp_all
  moreover have "zzz self ^ 2 \<le> 2000 ^ 2" using z by (intro power_mono) simp_all
  ultimately have "\<bar>xxx self ^ 2 + zzz self ^ 2\<bar> \<le> 4640000" by simp
  then show ?thesis by (simp add: float_overflow_def float_limit_def)
qed




section \<open>Properties of the verbosity\<close>

lemma main_log_level_in_range:
  "0 \<le> v \<Longrightarrow> v < 4 \<Longrightarrow> main_log_level (Some v) = Inr (log_levels ! nat v)"
  by (simp add: main_log_level_def list_getitem_def log_levels_def)

lemma main_log_level_clamped:
  "4 \<le> v \<Longrightarrow> main_log_level (Some v) = Inl IndexError"
  by (simp add: main_log_level_def list_getitem_def log_levels_def)

text \<open>
  Claim C8 (the verbosity is clamped into the table of levels). The clamp sets the count
  to the length of the table, not to its last index, so four \<open>-v\<close> flags (or more)
  raise \<open>IndexError\<close> at the subscription.
\<close>

theorem main_log_level_four_flags:
  "main_log_level (Some 4) = Inl IndexError"
  by (simp add: main_log_level_def list_getitem_def log_levels_def)

section \<open>Properties of the record store\<close>

lemma digit_char_is_digit: "d < 10 \<Longrightarrow> is_digit (digit_char d)"
  unfolding digit_char_def is_digit_def by (rule nth_mem) simp

lemma digit_value_digit_char: "d < 10 \<Longrightarrow> digit_value (digit_char d) = Some d"
proof -
  assume "d < 10"
  then have "d \<in> {0, 1, 2, 3, 4, 5, 6, 7, 8, 9}" by auto
  then show ?thesis
    by (auto simp: digit_char_def digit_value_def)
qed

lemma digit_value_Some: "is_digit c \<Longrightarrow> \<exists>d. digit_value c = Some d"
  by (auto simp: digit_value_def is_digit_def)

lemma digit_not_special:
  assumes "is_digit c"
  shows "c \<noteq> CHR '',''" and "c \<noteq> CHR ''-''" and "c \<noteq> CHR ''+''" and "c \<noteq> CHR ''#''"
    and "\<not> int_space c" and "\<not> linebreak c" and "c \<noteq> CHR 0x0D"
  using assms by (auto simp: int_space_def linebreak_def is_digit_def)

lemma str_nat_digits: "c \<in> set (str_nat n) \<Longrightarrow> is_digit c"
proof (induction n rule: str_nat.induct)
  case (1 n)
  show ?case
  proof (cases "n < 10")
    case True
    with "1.prems" have "c = digit_char n"
      by (subst (asm) str_nat.simps) simp
    with True show ?thesis by (simp add: digit_char_is_digit)
  next
    case False
    with "1.prems" have "c \<in> set (str_nat (n div 10)) \<or> c = digit_char (n mod 10)"
      by (subst (asm) str_nat.simps) auto
    moreover have "is_digit (digit_char (n mod 10))" by (rule digit_char_is_digit) simp
    ultimately show ?thesis using "1.IH" False by blast
  qed
qed

lemma str_nat_not_Nil: "str_nat n \<noteq> []"
  by (subst str_nat.simps) simp

lemma digits_value_fold:
  "\<forall>c \<in> set cs. is_digit c \<Longrightarrow> digits_value acc cs = Some (digits_fold acc cs)"
proof (induction cs arbitrary: acc)
  case Nil
  then show ?case by (simp add: digits_fold_def)
next
  case (Cons c cs)
  then have "is_digit c" by simp
  then obtain d where d: "digit_value c = Some d" using digit_value_Some by blast
  from Cons have "digits_value (10 * acc + d) cs = Some (digits_fold (10 * acc + d) cs)"
    by simp
  with d show ?case by (simp add: digits_fold_def)
qed

lemma digits_fold_str_nat: "digits_fold 0 (str_nat n) = n"
proof (induction n rule: str_nat.induct)
  case (1 n)
  show ?case
  proof (cases "n < 10")
    case True
    then show ?thesis
      by (subst str_nat.simps) (simp add: digits_fold_def digit_value_digit_char)
  next
    case False
    have "digits_fold 0 (str_nat n)
          = 10 * digits_fold 0 (str_nat (n div 10)) + the (digit_value (digit_char (n mod 10)))"
      using False by (subst str_nat.simps) (simp add: digits_fold_def)
    also have "\<dots> = 10 * (n div 10) + n mod 10"
      using 1 False by (simp add: digit_value_digit_char)
    finally show ?thesis by simp
  qed
qed

lemma digits_value_str_nat: "digits_value 0 (str_nat n) = Some n"
proof -
  have "\<forall>c \<in> set (str_nat n). is_digit c" using str_nat_digits by blast
  then show ?thesis by (simp add: digits_value_fold digits_fold_str_nat)
qed

lemma dropWhile_hd: "s \<noteq> [] \<Longrightarrow> \<not> P (hd s) \<Longrightarrow> dropWhile P s = s"
  by (cases s) simp_all

lemma int_strip_id:
  assumes "s \<noteq> []" and "\<not> int_space (hd s)" and "\<not> int_space (last s)"
  shows "int_strip s = s"
proof -
  have "dropWhile int_space s = s" using assms by (simp add: dropWhile_hd)
  moreover have "dropWhile int_space (rev s) = rev s"
    using assms by (simp add: dropWhile_hd hd_rev)
  ultimately show ?thesis by (simp add: int_strip_def)
qed

lemma str_nat_hd: "is_digit (hd (str_nat n))"
  using str_nat_not_Nil [of n] by (intro str_nat_digits [of _ n]) simp

lemma str_nat_last: "is_digit (last (str_nat n))"
  using str_nat_not_Nil [of n] by (intro str_nat_digits [of _ n]) simp

lemma str_int_chars: "c \<in> set (str_int i) \<Longrightarrow> is_digit c \<or> c = CHR ''-''"
  using str_nat_digits [of c] by (auto simp: str_int_def split: if_splits)

lemma str_int_not_Nil: "str_int i \<noteq> []"
  by (simp add: str_int_def str_nat_not_Nil)

lemma int_py_str_nat: "int_py (str_nat n) = Inr (int n)"
proof -
  obtain c cs where cs: "str_nat n = c # cs"
    using str_nat_not_Nil [of n] by (cases "str_nat n") auto
  then have c: "is_digit c" using str_nat_hd [of n] by simp
  then obtain d where d: "digit_value c = Some d" using digit_value_Some by blast
  have "int_strip (str_nat n) = str_nat n"
    by (intro int_strip_id str_nat_not_Nil digit_not_special(5) str_nat_hd str_nat_last)
  moreover have "c \<noteq> CHR ''-''" "c \<noteq> CHR ''+''" using c digit_not_special by blast+
  moreover have "digits_value 0 (c # cs) = Some n" using digits_value_str_nat [of n] cs by simp
  ultimately show ?thesis using cs d
    by (simp add: int_py_def)
qed

lemma int_py_minus_str_nat: "int_py (CHR ''-'' # str_nat n) = Inr (- int n)"
proof -
  obtain c cs where cs: "str_nat n = c # cs"
    using str_nat_not_Nil [of n] by (cases "str_nat n") auto
  then have c: "is_digit c" using str_nat_hd [of n] by simp
  then obtain d where d: "digit_value c = Some d" using digit_value_Some by blast
  have "\<not> int_space (last (str_nat n))" using str_nat_last digit_not_special(5) by blast
  then have "int_strip (CHR ''-'' # str_nat n) = CHR ''-'' # str_nat n"
    using str_nat_not_Nil by (intro int_strip_id) (simp_all add: int_space_def)
  moreover have "digits_value 0 (c # cs) = Some n" using digits_value_str_nat [of n] cs by simp
  ultimately show ?thesis using cs d
    by (simp add: int_py_def)
qed

lemma int_py_str_int: "int_py (str_int i) = Inr i"
  by (simp add: str_int_def int_py_str_nat int_py_minus_str_nat)

lemma split_sep_none: "sep \<notin> set s \<Longrightarrow> split_sep sep s = [s]"
  by (induction s) auto

lemma split_sep_append:
  "sep \<notin> set s \<Longrightarrow> split_sep sep (s @ sep # rest) = s # split_sep sep rest"
  by (induction s) auto

lemma Orientation_name_no_comma: "CHR '','' \<notin> set (Orientation_name v)"
  by (cases v) auto

lemma Orientation_getitem_name: "Orientation_getitem (Orientation_name v) = Inr v"
  by (cases v) (simp_all add: Orientation_getitem_def)

lemma str_int_no_comma: "CHR '','' \<notin> set (str_int i)"
  using str_int_chars [of "CHR '',''" i] digit_not_special(1) by auto

lemma split_as_string:
  "split_sep CHR '','' (as_string p)
   = [str_int (xxx p), str_int (zzz p), Orientation_name (orientation p)]"
  by (simp add: as_string_def split_sep_append split_sep_none str_int_no_comma
      Orientation_name_no_comma)

lemma from_string_as_string:
  "\<exists>q. from_string (as_string p) g = Inr (q, g)
       \<and> xxx q = xxx p \<and> zzz q = zzz p \<and> orientation q = orientation p"
  by (simp add: from_string_def split_as_string int_py_str_int Orientation_getitem_name
      Postcard_init_def split: prod.splits)

lemma as_string_cong:
  "xxx q = xxx p \<Longrightarrow> zzz q = zzz p \<Longrightarrow> orientation q = orientation p
   \<Longrightarrow> as_string q = as_string p"
  by (simp add: as_string_def)

lemma Orientation_name_no_linebreak:
  "c \<in> set (Orientation_name v) \<Longrightarrow> \<not> linebreak c \<and> c \<noteq> CHR 0x0D"
  by (cases v) (auto simp: linebreak_def)

lemma as_string_no_linebreak:
  assumes "c \<in> set (as_string p)"
  shows "\<not> linebreak c \<and> c \<noteq> CHR 0x0D"
proof -
  from assms have "c \<in> set (str_int (xxx p)) \<or> c \<in> set (str_int (zzz p)) \<or> c = CHR '',''
      \<or> c \<in> set (Orientation_name (orientation p))"
    by (auto simp: as_string_def)
  then have "is_digit c \<or> c = CHR ''-'' \<or> c = CHR '',''
      \<or> c \<in> set (Orientation_name (orientation p))"
    using str_int_chars by blast
  then show ?thesis
    using digit_not_special(6,7) [of c] Orientation_name_no_linebreak [of c "orientation p"]
    by (auto simp: linebreak_def)
qed

lemma as_string_not_comment: "\<not> startswith (as_string p) ''#''"
proof -
  obtain c cs where cs: "str_int (xxx p) = c # cs"
    using str_int_not_Nil [of "xxx p"] by (cases "str_int (xxx p)") auto
  then have "is_digit c \<or> c = CHR ''-''" using str_int_chars [of c "xxx p"] by simp
  then have "c \<noteq> CHR ''#''" using digit_not_special(4) by auto
  with cs show ?thesis by (simp add: as_string_def startswith_def)
qed

lemma splitlines_line:
  "\<forall>c \<in> set l. \<not> linebreak c \<and> c \<noteq> CHR 0x0D
   \<Longrightarrow> splitlines (l @ CHR 0x0A # rest) = l # splitlines rest"
  by (induction l) (simp_all add: linebreak_def)

lemma splitlines_join:
  "ls \<noteq> [] \<Longrightarrow> \<forall>l \<in> set ls. \<forall>c \<in> set l. \<not> linebreak c \<and> c \<noteq> CHR 0x0D
   \<Longrightarrow> splitlines (join [CHR 0x0A] ls @ [CHR 0x0A]) = ls"
proof (induction "[CHR 0x0A]" ls rule: join.induct)
  case 1
  then show ?case by simp
next
  case (2 x)
  then show ?case using splitlines_line [of x "[]"] by simp
next
  case (3 x y ys)
  then have "splitlines (join [CHR 0x0A] (y # ys) @ [CHR 0x0A]) = y # ys" by simp
  moreover have "\<forall>c \<in> set x. \<not> linebreak c \<and> c \<noteq> CHR 0x0D" using 3 by simp
  ultimately show ?case
    using splitlines_line [of x "join [CHR 0x0A] (y # ys) @ [CHR 0x0A]"] by simp
qed

lemma parse_busy_loop_as_string:
  "\<exists>qs. parse_busy_loop (map as_string ps) acc g = Inr (acc @ qs, g)
        \<and> map as_string qs = map as_string ps"
proof (induction ps arbitrary: acc)
  case Nil
  then show ?case by simp
next
  case (Cons p ps)
  obtain q where q: "from_string (as_string p) g = Inr (q, g)" "as_string q = as_string p"
    using from_string_as_string [of p g] as_string_cong by blast
  obtain qs where qs: "parse_busy_loop (map as_string ps) (acc @ [q]) g = Inr ((acc @ [q]) @ qs, g)"
      "map as_string qs = map as_string ps"
    using Cons [of "acc @ [q]"] by blast
  have "parse_busy_loop (map as_string (p # ps)) acc g = Inr (acc @ (q # qs), g)"
    using q qs by (simp add: as_string_not_comment)
  moreover have "map as_string (q # qs) = map as_string (p # ps)" using q qs by simp
  ultimately show ?case by blast
qed

lemma write_busy_cong: "map as_string qs = map as_string ps \<Longrightarrow> write_busy qs = write_busy ps"
  by (simp add: write_busy_def)

lemma main_placement_not_Nil:
  "main_placement door orientation1 existing_postcards g = Some (Inr (postcards, postcard, g'))
   \<Longrightarrow> postcards \<noteq> []"
  by (auto simp: main_placement_def split: sum.splits option.splits prod.splits)

text \<open>
  Claim C7 (saving, loading and saving again gives the same text), amended: the round
  trip holds for every list of postcards that is not empty. Loading what \<open>write_busy\<close>
  wrote succeeds, leaves the generator untouched, and saving the loaded list writes the
  same file again. \<open>main\<close> appends the accepted postcard before it saves (line 342
  before line 345, \<open>main_placement_not_Nil\<close>), so every list the program writes is
  covered. The empty list is not: for it \<open>write_busy\<close> writes the header and then one
  empty line, which \<open>parse_busy\<close> neither skips nor can split into three fields.
\<close>

theorem roundtrip_nonempty:
  assumes "S \<noteq> []"
  shows "\<exists>S'. parse_busy (write_busy S) g = Inr (S', g) \<and> write_busy S' = write_busy S"
proof -
  have "\<forall>l \<in> set (map as_string S). \<forall>c \<in> set l. \<not> linebreak c \<and> c \<noteq> CHR 0x0D"
    using as_string_no_linebreak by auto
  with assms
  have lines: "splitlines (join [CHR 0x0A] (map as_string S) @ [CHR 0x0A]) = map as_string S"
    by (intro splitlines_join) simp_all
  have "splitlines (''# x,z,orientation'' @ CHR 0x0A # join [CHR 0x0A] (map as_string S) @ [CHR 0x0A])
        = ''# x,z,orientation'' # splitlines (join [CHR 0x0A] (map as_string S) @ [CHR 0x0A])"
    by (rule splitlines_line) (simp add: linebreak_def)
  with lines have "parse_busy (write_busy S) g = parse_busy_loop (map as_string S) [] g"
    by (simp add: parse_busy_def write_busy_def startswith_def)
  moreover obtain qs where "parse_busy_loop (map as_string S) [] g = Inr ([] @ qs, g)"
      and "map as_string qs = map as_string S"
    using parse_busy_loop_as_string [of S "[]" g] by blast
  ultimately show ?thesis
    using write_busy_cong [of qs S] by simp
qed

theorem roundtrip_nonempty_witness:
  "[\<lparr>xxx = 10, zzz = 50, width = 106, height = 146, orientation = PORTRAIT\<rparr>] \<noteq> []
   \<and> (\<exists>S'. parse_busy
              (write_busy [\<lparr>xxx = 10, zzz = 50, width = 106, height = 146,
                             orientation = PORTRAIT\<rparr>]) (sconst 0) = Inr (S', sconst 0)
            \<and> write_busy S'
              = write_busy [\<lparr>xxx = 10, zzz = 50, width = 106, height = 146,
                              orientation = PORTRAIT\<rparr>])"
  using roundtrip_nonempty
          [of "[\<lparr>xxx = 10, zzz = 50, width = 106, height = 146, orientation = PORTRAIT\<rparr>]"
              "sconst 0"]
  by simp

theorem roundtrip_empty_counterexample:
  "write_busy [] = Some (''# x,z,orientation'' @ [CHR 0x0A, CHR 0x0A])
   \<and> parse_busy (write_busy []) (sconst 0) = Inl ValueError"
  by (simp add: parse_busy_def write_busy_def linebreak_def startswith_def from_string_def)

end
